theory Spec2Isabelle
  imports Main
begin

section \<open>A small shell: the fragment of bash the deploy script is written in\<close>

text \<open>
  The deploy script (\<^verbatim>\<open>src/unnamed/part_001\<close>, lines 166 to 215) is a straight-line bash
  script: variable assignments, \<^verbatim>\<open>echo\<close>, five external commands, two \<^verbatim>\<open>if [ ... ]; then\<close>
  blocks ending in \<^verbatim>\<open>exit 1\<close>, all of it under \<^verbatim>\<open>set -e\<close>. The script is embedded as a value
  of a statement type, and run by an interpreter that implements the rules of bash this
  script depends on:
  \<^item> every command sets the exit status \<^verbatim>\<open>$?\<close>;
  \<^item> once \<^verbatim>\<open>set -e\<close> has run, a simple command (an external command, or an assignment
    from a command substitution) that ends with a non-zero status ends the script with
    that status;
  \<^item> the test of an \<^verbatim>\<open>if\<close> is exempt from \<^verbatim>\<open>set -e\<close>, and an \<^verbatim>\<open>if\<close> without \<^verbatim>\<open>else\<close> whose
    test is false has status 0;
  \<^item> \<^verbatim>\<open>exit n\<close> ends the script with status \<open>n\<close>;
  \<^item> a script that runs to its end exits with the status of its last command.

  A word of the script is a list of literal pieces and variable references; a variable
  that is not set expands to the empty string. The values of the script's variables hold
  no blank, so that an unquoted \<^verbatim>\<open>$NAME\<close> is one word as a quoted one is. \<^verbatim>\<open>echo\<close> and
  the assignment of a word always succeed.
\<close>

datatype part = Lit string | Var string

type_synonym word = "part list"

datatype test =
    LastStatusNe nat      \<comment> \<open>\<^verbatim>\<open>[ $? -ne n ]\<close>\<close>
  | StrNe word word       \<comment> \<open>\<^verbatim>\<open>[ "a" != "b" ]\<close>\<close>

datatype stmt =
    SetE                          \<comment> \<open>\<^verbatim>\<open>set -e\<close>\<close>
  | Assign string word            \<comment> \<open>\<^verbatim>\<open>NAME=word\<close>\<close>
  | AssignCmd string "word list"  \<comment> \<open>\<^verbatim>\<open>NAME=$(command)\<close>\<close>
  | Export string word            \<comment> \<open>\<^verbatim>\<open>export NAME=word\<close>\<close>
  | Echo word                     \<comment> \<open>\<^verbatim>\<open>echo "word"\<close>\<close>
  | Run "word list"               \<comment> \<open>an external command, its standard output not captured\<close>
  | If test "stmt list"           \<comment> \<open>\<^verbatim>\<open>if test; then ...; fi\<close>\<close>
  | Exit nat                      \<comment> \<open>\<^verbatim>\<open>exit n\<close>\<close>

text \<open>
  What a run leaves behind, in order: the lines it printed, the external commands it
  ran (expanded argument vector and exit status), and the tests it evaluated.
\<close>

datatype event =
    Printed string
  | Ran "string list" nat
  | Tested test bool

text \<open>
  The world outside the script: what an external command, given by its argument vector,
  ends with (exit status) and writes to standard output (trailing newlines removed, as
  command substitution does).
\<close>

type_synonym world = "string list \<Rightarrow> nat \<times> string"

record shell =
  vars :: "(string \<times> string) list"
  exported :: "string list"
  status :: nat
  errexit :: bool
  trace :: "event list"

datatype result = Running shell | Exited nat shell

definition lookup_var :: "(string \<times> string) list \<Rightarrow> string \<Rightarrow> string" where
  "lookup_var vs x = (case map_of vs x of None \<Rightarrow> [] | Some v \<Rightarrow> v)"

fun expand_part :: "(string \<times> string) list \<Rightarrow> part \<Rightarrow> string" where
  "expand_part vs (Lit s) = s"
| "expand_part vs (Var x) = lookup_var vs x"

definition expand :: "(string \<times> string) list \<Rightarrow> word \<Rightarrow> string" where
  "expand vs w = concat (map (expand_part vs) w)"

fun eval_test :: "shell \<Rightarrow> test \<Rightarrow> bool" where
  "eval_test s (LastStatusNe n) = (status s \<noteq> n)"
| "eval_test s (StrNe a b) = (expand (vars s) a \<noteq> expand (vars s) b)"

text \<open>The end of a simple command: record its status, and leave under \<^verbatim>\<open>set -e\<close> if it failed.\<close>

definition finish :: "nat \<Rightarrow> shell \<Rightarrow> result" where
  "finish n s =
     (if errexit s \<and> n \<noteq> 0 then Exited n (s\<lparr>status := n\<rparr>)
      else Running (s\<lparr>status := n\<rparr>))"

definition log_event :: "event \<Rightarrow> shell \<Rightarrow> shell" where
  "log_event e s = s\<lparr>trace := trace s @ [e]\<rparr>"

definition set_var :: "string \<Rightarrow> string \<Rightarrow> shell \<Rightarrow> shell" where
  "set_var x v s = s\<lparr>vars := (x, v) # vars s\<rparr>"

fun exec_stmt :: "world \<Rightarrow> stmt \<Rightarrow> shell \<Rightarrow> result"
  and exec_block :: "world \<Rightarrow> stmt list \<Rightarrow> shell \<Rightarrow> result" where
  "exec_stmt w SetE s = Running (s\<lparr>errexit := True, status := 0\<rparr>)"
| "exec_stmt w (Assign x v) s = finish 0 (set_var x (expand (vars s) v) s)"
| "exec_stmt w (AssignCmd x argv) s =
     (let args = map (expand (vars s)) argv;
          (n, out) = w args
      in finish n (set_var x out (log_event (Ran args n) s)))"
| "exec_stmt w (Export x v) s =
     finish 0 ((set_var x (expand (vars s) v) s)\<lparr>exported := x # exported s\<rparr>)"
| "exec_stmt w (Echo v) s = finish 0 (log_event (Printed (expand (vars s) v)) s)"
| "exec_stmt w (Run argv) s =
     (let args = map (expand (vars s)) argv;
          (n, out) = w args
      in finish n (log_event (Ran args n) s))"
| "exec_stmt w (If t body) s =
     (let b = eval_test s t;
          s' = log_event (Tested t b) s
      in if b then exec_block w body s' else Running (s'\<lparr>status := 0\<rparr>))"
| "exec_stmt w (Exit n) s = Exited n s"
| "exec_block w [] s = Running s"
| "exec_block w (c # cs) s =
     (case exec_stmt w c s of
        Exited n s' \<Rightarrow> Exited n s'
      | Running s' \<Rightarrow> exec_block w cs s')"

definition init_shell :: shell where
  "init_shell = \<lparr>vars = [], exported = [], status = 0, errexit = False, trace = []\<rparr>"

text \<open>A run of a script: its exit status and its trace.\<close>

definition run_script :: "world \<Rightarrow> stmt list \<Rightarrow> nat \<times> event list" where
  "run_script w script =
     (case exec_block w script init_shell of
        Running s \<Rightarrow> (status s, trace s)
      | Exited n s \<Rightarrow> (n, trace s))"

section \<open>The deploy script\<close>

text \<open>
  The messages of the script begin with emoji; a \<open>string\<close> is a list of bytes, so each is
  given by its UTF-8 bytes as they stand in the source file (two of them are the
  replacement character there).
\<close>

definition emoji_rocket :: string where
  "emoji_rocket = [CHR 0xF0, CHR 0x9F, CHR 0x9A, CHR 0x80]"

definition emoji_pin :: string where
  "emoji_pin = [CHR 0xF0, CHR 0x9F, CHR 0x93, CHR 0x8D]"

definition emoji_package :: string where
  "emoji_package = [CHR 0xF0, CHR 0x9F, CHR 0x93, CHR 0xA6]"

definition emoji_lock :: string where
  "emoji_lock = [CHR 0xF0, CHR 0x9F, CHR 0x94, CHR 0x90]"

definition emoji_cross :: string where
  "emoji_cross = [CHR 0xE2, CHR 0x9D, CHR 0x8C]"

definition emoji_warning :: string where
  "emoji_warning = [CHR 0xE2, CHR 0x9A, CHR 0xA0, CHR 0xEF, CHR 0xB8, CHR 0x8F]"

definition emoji_check :: string where
  "emoji_check = [CHR 0xE2, CHR 0x9C, CHR 0x85]"

definition emoji_replacement :: string where
  "emoji_replacement = [CHR 0xEF, CHR 0xBF, CHR 0xBD]"

text \<open>The literal pieces of the messages the script prints.\<close>

definition msg_start :: string where
  "msg_start = emoji_rocket @ '' Starting deployment of Eksplorasa API to AWS account: ''"

definition msg_region :: string where
  "msg_region = emoji_pin @ '' Region: ''"

definition msg_stack :: string where
  "msg_stack = emoji_package @ '' Stack: ''"

definition msg_checking :: string where
  "msg_checking = emoji_lock @ '' Checking AWS credentials...''"

definition msg_not_configured :: string where
  "msg_not_configured = emoji_cross @
     '' AWS credentials not configured for '' @ [CHR 0x27] @ ''eksplorasa-dev'' @ [CHR 0x27] @
     '' profile. Please run '' @ [CHR 0x27] @ ''aws configure --profile eksplorasa-dev'' @
     [CHR 0x27] @ '' first.''"

definition msg_warning_current :: string where
  "msg_warning_current = emoji_warning @ ''  Warning: Current AWS account (''"

definition msg_warning_target :: string where
  "msg_warning_target = '') doesn'' @ [CHR 0x27] @ ''t match target account (''"

definition msg_warning_end :: string where
  "msg_warning_end = '')''"

definition msg_switch :: string where
  "msg_switch = ''Please switch to the correct AWS profile or account.''"

definition msg_verified :: string where
  "msg_verified = emoji_check @ '' AWS credentials verified for account: ''"

definition msg_installing :: string where
  "msg_installing = emoji_package @ '' Installing Node.js dependencies...''"

definition msg_building :: string where
  "msg_building = emoji_replacement @ '' Building the project...''"

definition msg_deploying :: string where
  "msg_deploying = emoji_replacement @ '' Deploying CDK stack...''"

definition msg_completed :: string where
  "msg_completed = emoji_check @ '' Deployment completed successfully!''"

text \<open>The script, statement by statement (source lines 169 to 215).\<close>

definition deploy_script :: "stmt list" where
  "deploy_script =
    [ SetE,
      Assign ''AWS_ACCOUNT_ID'' [Lit ''315565838153''],
      Assign ''AWS_REGION'' [Lit ''ap-southeast-3''],
      Assign ''STAGE'' [Lit ''dev''],
      Assign ''STACK_NAME'' [Lit ''EksplorasaApiStack-'', Var ''STAGE''],
      Echo [Lit msg_start, Var ''AWS_ACCOUNT_ID''],
      Echo [Lit msg_region, Var ''AWS_REGION''],
      Echo [Lit msg_stack, Var ''STACK_NAME''],
      Echo [],
      Echo [Lit msg_checking],
      Run [[Lit ''aws''], [Lit ''sts''], [Lit ''get-caller-identity''],
           [Lit ''--profile''], [Lit ''eksplorasa-dev'']],
      If (LastStatusNe 0)
        [ Echo [Lit msg_not_configured],
          Exit 1 ],
      AssignCmd ''CURRENT_ACCOUNT''
          [[Lit ''aws''], [Lit ''sts''], [Lit ''get-caller-identity''],
           [Lit ''--profile''], [Lit ''eksplorasa-dev''],
           [Lit ''--query''], [Lit ''Account''], [Lit ''--output''], [Lit ''text'']],
      If (StrNe [Var ''CURRENT_ACCOUNT''] [Var ''AWS_ACCOUNT_ID''])
        [ Echo [Lit msg_warning_current, Var ''CURRENT_ACCOUNT'', Lit msg_warning_target,
                Var ''AWS_ACCOUNT_ID'', Lit msg_warning_end],
          Echo [Lit msg_switch],
          Exit 1 ],
      Echo [Lit msg_verified, Var ''CURRENT_ACCOUNT''],
      Echo [],
      Echo [Lit msg_installing],
      Run [[Lit ''npm''], [Lit ''ci'']],
      Echo [Lit msg_building],
      Run [[Lit ''npm''], [Lit ''run''], [Lit ''build'']],
      Echo [Lit msg_deploying],
      Export ''STAGE'' [Var ''STAGE''],
      Run [[Lit ''npx''], [Lit ''cdk''], [Lit ''deploy''], [Lit ''--require-approval''],
           [Lit ''never''], [Lit ''--region''], [Var ''AWS_REGION''], [Lit ''--context''],
           [Lit ''stage='', Var ''STAGE''], [Lit ''--profile''], [Lit ''eksplorasa-dev'']],
      Echo [],
      Echo [Lit msg_completed] ]"

definition deploy :: "world \<Rightarrow> nat \<times> event list" where
  "deploy w = run_script w deploy_script"

text \<open>The five external commands of the script, as the argument vectors they run with.\<close>

definition AWS_ACCOUNT_ID :: string where
  "AWS_ACCOUNT_ID = ''315565838153''"

definition credential_check :: "string list" where
  "credential_check = [''aws'', ''sts'', ''get-caller-identity'', ''--profile'', ''eksplorasa-dev'']"

definition account_query :: "string list" where
  "account_query = [''aws'', ''sts'', ''get-caller-identity'', ''--profile'', ''eksplorasa-dev'',
                    ''--query'', ''Account'', ''--output'', ''text'']"

definition npm_ci :: "string list" where
  "npm_ci = [''npm'', ''ci'']"

definition npm_run_build :: "string list" where
  "npm_run_build = [''npm'', ''run'', ''build'']"

definition cdk_deploy :: "string list" where
  "cdk_deploy = [''npx'', ''cdk'', ''deploy'', ''--require-approval'', ''never'', ''--region'',
                 ''ap-southeast-3'', ''--context'', ''stage=dev'', ''--profile'', ''eksplorasa-dev'']"

subsection \<open>Vocabulary for the runs of the script\<close>

text \<open>The five steps of the deployment, in the order of the script, and the command of each.\<close>

datatype step = CredentialCheck | AccountVerification | Install | Build | Deploy

definition steps :: "step list" where
  "steps = [CredentialCheck, AccountVerification, Install, Build, Deploy]"

fun step_command :: "step \<Rightarrow> string list" where
  "step_command CredentialCheck = credential_check"
| "step_command AccountVerification = account_query"
| "step_command Install = npm_ci"
| "step_command Build = npm_run_build"
| "step_command Deploy = cdk_deploy"

text \<open>
  A step fails when its command ends with a non-zero status; the account verification
  fails as well when the account it reads is not the configured one.
\<close>

fun step_fails :: "world \<Rightarrow> step \<Rightarrow> bool" where
  "step_fails w AccountVerification =
     (fst (w account_query) \<noteq> 0 \<or> snd (w account_query) \<noteq> AWS_ACCOUNT_ID)"
| "step_fails w s = (fst (w (step_command s)) \<noteq> 0)"

definition first_failure :: "world \<Rightarrow> step option" where
  "first_failure w = find (step_fails w) steps"

definition steps_through :: "step \<Rightarrow> step list" where
  "steps_through s = takeWhile (\<lambda>t. t \<noteq> s) steps @ [s]"

fun commands_run :: "event list \<Rightarrow> string list list" where
  "commands_run [] = []"
| "commands_run (Ran args n # es) = args # commands_run es"
| "commands_run (e # es) = commands_run es"

fun is_printed :: "event \<Rightarrow> bool" where
  "is_printed (Printed m) = True"
| "is_printed e = False"

text \<open>The events of a trace that follow the run of a given command.\<close>

fun after_run :: "string list \<Rightarrow> event list \<Rightarrow> event list" where
  "after_run c [] = []"
| "after_run c (Ran args n # es) = (if args = c then es else after_run c es)"
| "after_run c (e # es) = after_run c es"

text \<open>The script reports the failure of a step when it prints something after the step's command.\<close>

definition failure_reported :: "step \<Rightarrow> event list \<Rightarrow> bool" where
  "failure_reported s tr = list_ex is_printed (after_run (step_command s) tr)"

text \<open>The parts of a trace that the runs share.\<close>

definition banner :: "event list" where
  "banner = [Printed (msg_start @ ''315565838153''), Printed (msg_region @ ''ap-southeast-3''),
             Printed (msg_stack @ ''EksplorasaApiStack-dev''), Printed [], Printed msg_checking]"

definition account_test :: test where
  "account_test = StrNe [Var ''CURRENT_ACCOUNT''] [Var ''AWS_ACCOUNT_ID'']"

text \<open>What a run has left behind when it reaches \<^verbatim>\<open>npm ci\<close>.\<close>

definition verified :: "event list" where
  "verified =
     banner @ [Ran credential_check 0, Tested (LastStatusNe 0) False, Ran account_query 0,
               Tested account_test False,
               Printed (msg_verified @ AWS_ACCOUNT_ID), Printed [], Printed msg_installing]"

definition warning_message :: "string \<Rightarrow> string" where
  "warning_message acct =
     msg_warning_current @ acct @ msg_warning_target @ AWS_ACCOUNT_ID @ msg_warning_end"

text \<open>The script without its first line \<^verbatim>\<open>set -e\<close>, to see what that line changes.\<close>

definition deploy_script_without_set_e :: "stmt list" where
  "deploy_script_without_set_e = tl deploy_script"

text \<open>
  The claim of the specification that every failing step ends the script with a non-zero
  status and a message of the script, and that no later step runs.
\<close>

definition aborts_with_message :: "world \<Rightarrow> bool" where
  "aborts_with_message w =
     (case first_failure w of
        None \<Rightarrow> True
      | Some s \<Rightarrow>
          fst (deploy w) \<noteq> 0 \<and>
          failure_reported s (snd (deploy w)) \<and>
          commands_run (snd (deploy w)) = map step_command (steps_through s))"

text \<open>Worlds to run the script in.\<close>

definition world_ok :: world where
  "world_ok args = (if args = account_query then (0, ''315565838153'') else (0, []))"

definition world_other_account :: world where
  "world_other_account args = (if args = account_query then (0, ''000000000000'') else (0, []))"

definition world_no_credentials :: world where
  "world_no_credentials args = (if args = credential_check then (255, []) else (0, []))"

definition world_install_fails :: world where
  "world_install_fails args =
     (if args = account_query then (0, ''315565838153'')
      else if args = npm_ci then (1, [])
      else (0, []))"

section \<open>The stack declarations\<close>

subsection \<open>JavaScript values, truthiness and template literals\<close>

text \<open>
  \<^verbatim>\<open>this.node.tryGetContext('stage')\<close> returns whatever the context holds under the key:
  nothing (\<^verbatim>\<open>undefined\<close>), a string (what \<^verbatim>\<open>--context stage=dev\<close> gives) or any JSON
  value of \<^verbatim>\<open>cdk.json\<close>. The stack reads two things of the value: whether it is truthy,
  in \<^verbatim>\<open>||\<close>, and the string that a template literal makes of it. A number is given by
  these two: whether it is neither \<^verbatim>\<open>0\<close> nor \<^verbatim>\<open>NaN\<close>, and its string (\<^verbatim>\<open>7\<close>, \<^verbatim>\<open>1.5\<close>,
  \<^verbatim>\<open>1e+21\<close>), which the language computes and this repository does not. An object or
  array, always truthy, is given by its string. The type has values that no JavaScript
  value gives (a number that is zero and is written \<^verbatim>\<open>5\<close>); what holds of every value of
  the type holds of every value of the language.
\<close>

datatype jsval =
    JUndefined
  | JNull
  | JBool bool
  | JNumber bool string
  | JStr string
  | JObject string

fun truthy :: "jsval \<Rightarrow> bool" where
  "truthy JUndefined = False"
| "truthy JNull = False"
| "truthy (JBool b) = b"
| "truthy (JNumber nonzero s) = nonzero"
| "truthy (JStr s) = (s \<noteq> [])"
| "truthy (JObject s) = True"

text \<open>\<^verbatim>\<open>a || b\<close>\<close>

definition js_or :: "jsval \<Rightarrow> jsval \<Rightarrow> jsval" where
  "js_or a b = (if truthy a then a else b)"

text \<open>The conversion a template literal \<^verbatim>\<open>`...${v}`\<close> applies to \<open>v\<close>.\<close>

fun to_string :: "jsval \<Rightarrow> string" where
  "to_string JUndefined = ''undefined''"
| "to_string JNull = ''null''"
| "to_string (JBool b) = (if b then ''true'' else ''false'')"
| "to_string (JNumber nonzero s) = s"
| "to_string (JStr s) = s"
| "to_string (JObject s) = s"

text \<open>
  The CDK context maps keys to values, the process environment maps names to strings;
  a key that is absent reads as \<^verbatim>\<open>undefined\<close> in both.
\<close>

type_synonym cdk_context = "string \<rightharpoonup> jsval"

type_synonym process_environment = "string \<rightharpoonup> string"

definition tryGetContext :: "cdk_context \<Rightarrow> string \<Rightarrow> jsval" where
  "tryGetContext ctx key = (case ctx key of None \<Rightarrow> JUndefined | Some v \<Rightarrow> v)"

definition process_env :: "process_environment \<Rightarrow> string \<Rightarrow> jsval" where
  "process_env env name = (case env name of None \<Rightarrow> JUndefined | Some s \<Rightarrow> JStr s)"

text \<open>
  \<^verbatim>\<open>const stage = this.node.tryGetContext('stage') || process.env.STAGE || 'prod';\<close>
  (line 13 of \<^verbatim>\<open>src/lib/eksplorasa-api-stack.ts\<close>, line 12 of \<^verbatim>\<open>src/unnamed/part_001\<close>).
\<close>

definition stage :: "cdk_context \<Rightarrow> process_environment \<Rightarrow> jsval" where
  "stage ctx env =
     js_or (js_or (tryGetContext ctx ''stage'') (process_env env ''STAGE'')) (JStr ''prod'')"

subsection \<open>Constructs\<close>

datatype subnet_type = PUBLIC | PRIVATE_WITH_EGRESS

record subnet_configuration =
  cidrMask :: nat
  subnet_name :: string
  subnetType :: subnet_type

record ec2_vpc =
  vpc_id :: string
  maxAzs :: nat
  natGateways :: nat
  subnetConfiguration :: "subnet_configuration list"

datatype peer = VpcCidrBlock | AnyIpv4 | SecurityGroupPeer string

record ingress_rule =
  rule_peer :: peer
  rule_tcp_port :: nat
  rule_description :: string

record ec2_security_group =
  sg_id :: string
  sg_description :: string
  allowAllOutbound :: bool
  ingress_rules :: "ingress_rule list"

datatype secret_value = UnsafePlainText string

datatype removal_policy = DESTROY | RETAIN

record rds_database_instance =
  db_id :: string
  postgres_version :: string
  instanceClass :: string
  instanceSize :: string
  credentials_username :: string
  credentials_password :: secret_value
  databaseName :: string
  db_subnetType :: subnet_type
  db_securityGroups :: "string list"
  allocatedStorage :: nat
  storageType :: string
  multiAz :: bool
  publiclyAccessible :: bool
  autoMinorVersionUpgrade :: bool
  backupRetention_days :: nat
  deletionProtection :: bool
  db_removalPolicy :: removal_policy

record lambda_layer_version =
  layer_id :: string
  layer_asset :: string
  bundling_command :: "string list"
  compatibleRuntimes :: "string list"
  layer_description :: string

text \<open>
  A value of a lambda's environment: a literal of the source, or the host name of the
  database endpoint, which is known only at deployment.
\<close>

datatype env_value = Literal string | InstanceEndpointHostname string

record lambda_function =
  fn_id :: string
  runtime :: string
  code_asset :: string
  code_exclude :: "string list"
  handler :: string
  functionName :: string
  fn_layers :: "string list"
  fn_subnetType :: subnet_type
  fn_securityGroups :: "string list"
  allowPublicSubnet :: bool
  environment :: "(string \<times> env_value) list"
  timeout_seconds :: nat

datatype function_url_auth_type = NONE | AWS_IAM

record lambda_function_url =
  url_of_function :: string
  authType :: function_url_auth_type
  allowedOrigins :: "string list"
  allowedMethods :: "string list"
  allowedHeaders :: "string list"

datatype output_value = FunctionUrlOf string | RestApiUrlOf string

record cfn_output =
  output_id :: string
  output_value :: output_value
  exportName :: string
  output_description :: "string option"

record apigateway_method =
  resource_path :: "string list"
  httpMethod :: string
  integration_function :: string
  integration_requestTemplates :: "(string \<times> string) list"
  requestParameters :: "(string \<times> bool) list"

record apigateway_rest_api =
  api_id :: string
  restApiName :: string
  api_description :: string
  cors_allowOrigins :: "string list"
  cors_allowMethods :: "string list"
  cors_allowHeaders :: "string list"
  deploy_stageName :: string
  deploy_loggingLevel :: string
  deploy_dataTraceEnabled :: bool
  deploy_metricsEnabled :: bool
  api_methods :: "apigateway_method list"

datatype attribute_type = STRING | NUMBER | BINARY

record dynamodb_table =
  table_id :: string
  tableName :: string
  partitionKey :: "string \<times> attribute_type"
  sortKey :: "(string \<times> attribute_type) option"
  table_removalPolicy :: removal_policy

text \<open>A stack: the constructs its constructor declares, in the order it declares them.\<close>

record stack =
  vpcs :: "ec2_vpc list"
  securityGroups :: "ec2_security_group list"
  databases :: "rds_database_instance list"
  layers :: "lambda_layer_version list"
  lambdaFunctions :: "lambda_function list"
  functionUrls :: "lambda_function_url list"
  restApis :: "apigateway_rest_api list"
  outputs :: "cfn_output list"
  tables :: "dynamodb_table list"

subsection \<open>The constructs of \<^verbatim>\<open>EksplorasaApiStack\<close>\<close>

text \<open>
  The repository holds two versions of the class \<^verbatim>\<open>EksplorasaApiStack\<close>:
  \<^verbatim>\<open>src/lib/eksplorasa-api-stack.ts\<close>, and lines 1 to 165 of \<^verbatim>\<open>src/unnamed/part_001\<close>. They
  declare the network, the security groups, the database, the layer, the customer
  homepage lambda and its function URL alike; the first goes on with the browse lambda
  behind an API gateway, the second with the restaurant detail lambda and its function
  URL. Each construct is a function of the stage \<open>st\<close>, named as the constant of the
  source that holds it.
\<close>

definition vpc :: "jsval \<Rightarrow> ec2_vpc" where
  "vpc st =
     \<lparr> vpc_id = ''EksplorasaVpc-'' @ to_string st,
       maxAzs = 2,
       natGateways = 2,
       subnetConfiguration =
         [ \<lparr>cidrMask = 24, subnet_name = ''public'', subnetType = PUBLIC\<rparr>,
           \<lparr>cidrMask = 24, subnet_name = ''private'', subnetType = PRIVATE_WITH_EGRESS\<rparr> ] \<rparr>"

definition lambdaSecurityGroup :: "jsval \<Rightarrow> ec2_security_group" where
  "lambdaSecurityGroup st =
     \<lparr> sg_id = ''LambdaSecurityGroup-'' @ to_string st,
       sg_description = ''Security group for Lambda functions'',
       allowAllOutbound = True,
       ingress_rules = [] \<rparr>"

text \<open>The security group of the database, with the three rules \<^verbatim>\<open>addIngressRule\<close> gives it.\<close>

definition dbSecurityGroup :: "jsval \<Rightarrow> ec2_security_group" where
  "dbSecurityGroup st =
     \<lparr> sg_id = ''DbSecurityGroup-'' @ to_string st,
       sg_description = ''Security group for RDS PostgreSQL database - publicly accessible'',
       allowAllOutbound = True,
       ingress_rules =
         [ \<lparr>rule_peer = VpcCidrBlock, rule_tcp_port = 5432,
            rule_description = ''Allow PostgreSQL access from VPC''\<rparr>,
           \<lparr>rule_peer = AnyIpv4, rule_tcp_port = 5432,
            rule_description = ''Allow PostgreSQL access from anywhere''\<rparr>,
           \<lparr>rule_peer = SecurityGroupPeer (sg_id (lambdaSecurityGroup st)), rule_tcp_port = 5432,
            rule_description = ''Temporary: Allow Lambda direct access for testing''\<rparr> ] \<rparr>"

definition database :: "jsval \<Rightarrow> rds_database_instance" where
  "database st =
     \<lparr> db_id = ''EksplorasaDatabase'' @ to_string st,
       postgres_version = ''VER_17_5'',
       instanceClass = ''BURSTABLE3'',
       instanceSize = ''MICRO'',
       credentials_username = ''eksplorasa'',
       credentials_password = UnsafePlainText ''eksplorasa2025'',
       databaseName = ''eksplorasa'' @ to_string st,
       db_subnetType = PUBLIC,
       db_securityGroups = [sg_id (dbSecurityGroup st)],
       allocatedStorage = 20,
       storageType = ''GP2'',
       multiAz = False,
       publiclyAccessible = True,
       autoMinorVersionUpgrade = True,
       backupRetention_days = 0,
       deletionProtection = False,
       db_removalPolicy = DESTROY \<rparr>"

definition pg8000Layer :: "jsval \<Rightarrow> lambda_layer_version" where
  "pg8000Layer st =
     \<lparr> layer_id = ''Pg8000Layer-'' @ to_string st,
       layer_asset = ''lambda'',
       bundling_command =
         [''bash'', ''-c'',
          ''mkdir -p /asset-output/python && pip install pg8000==1.30.3 -t /asset-output/python''],
       compatibleRuntimes = [''PYTHON_3_11''],
       layer_description = ''pg8000 pure Python PostgreSQL driver'' \<rparr>"

definition customerHomepageLambda :: "jsval \<Rightarrow> lambda_function" where
  "customerHomepageLambda st =
     \<lparr> fn_id = ''CustomerHomepageLambda-'' @ to_string st,
       runtime = ''PYTHON_3_11'',
       code_asset = ''lambda'',
       code_exclude = [''requirements.txt''],
       handler = ''customer_homepage.handler'',
       functionName = ''eksplorasa-customer-homepage-'' @ to_string st,
       fn_layers = [layer_id (pg8000Layer st)],
       fn_subnetType = PUBLIC,
       fn_securityGroups = [sg_id (lambdaSecurityGroup st)],
       allowPublicSubnet = True,
       environment =
         [ (''DB_ENDPOINT'', InstanceEndpointHostname (db_id (database st))),
           (''DB_PORT'', Literal ''5432''),
           (''DB_NAME'', Literal (''eksplorasa'' @ to_string st)),
           (''DB_USERNAME'', Literal ''eksplorasa''),
           (''DB_PASSWORD'', Literal ''eksplorasa2025'') ],
       timeout_seconds = 30 \<rparr>"

definition customerHomepageFunctionUrl :: "jsval \<Rightarrow> lambda_function_url" where
  "customerHomepageFunctionUrl st =
     \<lparr> url_of_function = fn_id (customerHomepageLambda st),
       authType = NONE,
       allowedOrigins = [''*''],
       allowedMethods = [''ALL''],
       allowedHeaders = [''*''] \<rparr>"

definition browseApiLambda :: "jsval \<Rightarrow> lambda_function" where
  "browseApiLambda st =
     \<lparr> fn_id = ''BrowseApiLambda-'' @ to_string st,
       runtime = ''PYTHON_3_11'',
       code_asset = ''lambda'',
       code_exclude = [''requirements.txt''],
       handler = ''browse_api.handler'',
       functionName = ''eksplorasa-browse-api-'' @ to_string st,
       fn_layers = [layer_id (pg8000Layer st)],
       fn_subnetType = PUBLIC,
       fn_securityGroups = [sg_id (lambdaSecurityGroup st)],
       allowPublicSubnet = True,
       environment =
         [ (''DB_ENDPOINT'', InstanceEndpointHostname (db_id (database st))),
           (''DB_PORT'', Literal ''5432''),
           (''DB_NAME'', Literal ''postgres''),
           (''DB_USERNAME'', Literal ''eksplorasa''),
           (''DB_PASSWORD'', Literal ''eksplorasa2025'') ],
       timeout_seconds = 30 \<rparr>"

text \<open>
  \<^verbatim>\<open>apigateway.Cors.ALL_ORIGINS\<close> and \<^verbatim>\<open>apigateway.Cors.ALL_METHODS\<close> are constants of the
  CDK library, with these values there.
\<close>

definition Cors_ALL_ORIGINS :: "string list" where
  "Cors_ALL_ORIGINS = [''*'']"

definition Cors_ALL_METHODS :: "string list" where
  "Cors_ALL_METHODS = [''OPTIONS'', ''GET'', ''PUT'', ''POST'', ''DELETE'', ''PATCH'', ''HEAD'']"

text \<open>The request template \<^verbatim>\<open>{ "statusCode": "200" }\<close>; the byte \<open>0x22\<close> is the double quote.\<close>

definition request_template :: string where
  "request_template =
     ''{ '' @ [CHR 0x22] @ ''statusCode'' @ [CHR 0x22] @ '': '' @ [CHR 0x22] @ ''200'' @ [CHR 0x22] @ '' }''"

text \<open>The gateway, with the one method \<^verbatim>\<open>explore.addMethod\<close> gives its resource \<^verbatim>\<open>explore\<close>.\<close>

definition browseApi :: "jsval \<Rightarrow> apigateway_rest_api" where
  "browseApi st =
     \<lparr> api_id = ''BrowseApi-'' @ to_string st,
       restApiName = ''Eksplorasa Browse API - '' @ to_string st,
       api_description = ''REST API for browsing restaurants with filtering capabilities'',
       cors_allowOrigins = Cors_ALL_ORIGINS,
       cors_allowMethods = Cors_ALL_METHODS,
       cors_allowHeaders = [''Content-Type'', ''X-Amz-Date'', ''Authorization'', ''X-Api-Key''],
       deploy_stageName = to_string st,
       deploy_loggingLevel = ''OFF'',
       deploy_dataTraceEnabled = False,
       deploy_metricsEnabled = True,
       api_methods =
         [ \<lparr> resource_path = [''explore''],
             httpMethod = ''GET'',
             integration_function = fn_id (browseApiLambda st),
             integration_requestTemplates = [(''application/json'', request_template)],
             requestParameters =
               [ (''method.request.querystring.sort'', False),
                 (''method.request.querystring.timeStart'', False),
                 (''method.request.querystring.timeEnd'', False),
                 (''method.request.querystring.minPrice'', False),
                 (''method.request.querystring.maxPrice'', False),
                 (''method.request.querystring.cuisines'', False),
                 (''method.request.querystring.bagTypes'', False),
                 (''method.request.querystring.maxDistance'', False),
                 (''method.request.querystring.latitude'', False),
                 (''method.request.querystring.longitude'', False) ] \<rparr> ] \<rparr>"

definition restaurantDetailLambda :: "jsval \<Rightarrow> lambda_function" where
  "restaurantDetailLambda st =
     \<lparr> fn_id = ''RestaurantDetailLambda-'' @ to_string st,
       runtime = ''PYTHON_3_11'',
       code_asset = ''lambda'',
       code_exclude = [''requirements.txt''],
       handler = ''customer_restaurant_detail.handler'',
       functionName = ''eksplorasa-restaurant-detail-'' @ to_string st,
       fn_layers = [layer_id (pg8000Layer st)],
       fn_subnetType = PUBLIC,
       fn_securityGroups = [sg_id (lambdaSecurityGroup st)],
       allowPublicSubnet = True,
       environment =
         [ (''DB_ENDPOINT'', InstanceEndpointHostname (db_id (database st))),
           (''DB_PORT'', Literal ''5432''),
           (''DB_NAME'', Literal (''eksplorasa'' @ to_string st)),
           (''DB_USERNAME'', Literal ''eksplorasa''),
           (''DB_PASSWORD'', Literal ''eksplorasa2025'') ],
       timeout_seconds = 30 \<rparr>"

definition restaurantDetailFunctionUrl :: "jsval \<Rightarrow> lambda_function_url" where
  "restaurantDetailFunctionUrl st =
     \<lparr> url_of_function = fn_id (restaurantDetailLambda st),
       authType = NONE,
       allowedOrigins = [''*''],
       allowedMethods = [''ALL''],
       allowedHeaders = [''*''] \<rparr>"

subsection \<open>The stacks\<close>

text \<open>\<^verbatim>\<open>src/lib/eksplorasa-api-stack.ts\<close>\<close>

definition EksplorasaApiStack :: "cdk_context \<Rightarrow> process_environment \<Rightarrow> stack" where
  "EksplorasaApiStack ctx env =
     (let st = stage ctx env in
      \<lparr> vpcs = [vpc st],
        securityGroups = [dbSecurityGroup st, lambdaSecurityGroup st],
        databases = [database st],
        layers = [pg8000Layer st],
        lambdaFunctions = [customerHomepageLambda st, browseApiLambda st],
        functionUrls = [customerHomepageFunctionUrl st],
        restApis = [browseApi st],
        outputs =
          [ \<lparr> output_id = ''CustomerHomepageUrl-'' @ to_string st,
              output_value = FunctionUrlOf (url_of_function (customerHomepageFunctionUrl st)),
              exportName = ''EksplorasaApi-'' @ to_string st @ ''-CustomerHomepageUrl'',
              output_description = None \<rparr>,
            \<lparr> output_id = ''BrowseApiUrl-'' @ to_string st,
              output_value = RestApiUrlOf (api_id (browseApi st)),
              exportName = ''EksplorasaApi-'' @ to_string st @ ''-BrowseApiUrl'',
              output_description = Some ''Browse API Gateway URL'' \<rparr> ],
        tables = [] \<rparr>)"

text \<open>\<^verbatim>\<open>src/unnamed/part_001\<close>, lines 1 to 165\<close>

definition EksplorasaApiStack_part_001 :: "cdk_context \<Rightarrow> process_environment \<Rightarrow> stack" where
  "EksplorasaApiStack_part_001 ctx env =
     (let st = stage ctx env in
      \<lparr> vpcs = [vpc st],
        securityGroups = [dbSecurityGroup st, lambdaSecurityGroup st],
        databases = [database st],
        layers = [pg8000Layer st],
        lambdaFunctions = [customerHomepageLambda st, restaurantDetailLambda st],
        functionUrls = [customerHomepageFunctionUrl st, restaurantDetailFunctionUrl st],
        restApis = [],
        outputs =
          [ \<lparr> output_id = ''CustomerHomepageUrl-'' @ to_string st,
              output_value = FunctionUrlOf (url_of_function (customerHomepageFunctionUrl st)),
              exportName = ''EksplorasaApi-'' @ to_string st @ ''-CustomerHomepageUrl'',
              output_description = None \<rparr>,
            \<lparr> output_id = ''RestaurantDetailUrl-'' @ to_string st,
              output_value = FunctionUrlOf (url_of_function (restaurantDetailFunctionUrl st)),
              exportName = ''EksplorasaApi-'' @ to_string st @ ''-RestaurantDetailUrl'',
              output_description = None \<rparr> ],
        tables = [] \<rparr>)"

text \<open>\<^verbatim>\<open>src/unnamed/part_001\<close>, lines 216 to 234\<close>

definition MyCdkStack :: stack where
  "MyCdkStack =
     \<lparr> vpcs = [], securityGroups = [], databases = [], layers = [], lambdaFunctions = [],
       functionUrls = [], restApis = [], outputs = [],
       tables =
         [ \<lparr> table_id = ''MyFirstTable'',
             tableName = ''my-first-table'',
             partitionKey = (''id'', STRING),
             sortKey = None,
             table_removalPolicy = DESTROY \<rparr> ] \<rparr>"

text \<open>Every stack the repository declares.\<close>

definition repository_stacks :: "cdk_context \<Rightarrow> process_environment \<Rightarrow> stack list" where
  "repository_stacks ctx env =
     [ EksplorasaApiStack ctx env,
       EksplorasaApiStack_part_001 ctx env,
       MyCdkStack ]"

text \<open>
  The context and the environment that the deploy script gives the stack
  (\<^verbatim>\<open>--context stage=$STAGE\<close> and \<^verbatim>\<open>export STAGE=$STAGE\<close>, with \<^verbatim>\<open>STAGE="dev"\<close>).
\<close>

definition script_context :: cdk_context where
  "script_context = [''stage'' \<mapsto> JStr ''dev'']"

definition script_environment :: process_environment where
  "script_environment = [''STAGE'' \<mapsto> ''dev'']"

subsection \<open>Vocabulary for the declarations\<close>

text \<open>
  The ten query strings the specification lists for the endpoint, and the constructs of
  each kind over a list of stacks.
\<close>

definition query_parameters :: "string list" where
  "query_parameters = [''sort'', ''timeStart'', ''timeEnd'', ''minPrice'', ''maxPrice'', ''cuisines'',
                       ''bagTypes'', ''maxDistance'', ''latitude'', ''longitude'']"

definition declared_methods :: "stack list \<Rightarrow> apigateway_method list" where
  "declared_methods ss = concat (map api_methods (concat (map restApis ss)))"

definition declared_function_urls :: "stack list \<Rightarrow> lambda_function_url list" where
  "declared_function_urls ss = concat (map functionUrls ss)"

text \<open>
  The sentence of the specification on function URLs, of one stack: it declares two, each
  without authentication and open to every origin.
\<close>

definition two_open_function_urls :: "stack \<Rightarrow> bool" where
  "two_open_function_urls S =
     (length (functionUrls S) = 2 \<and>
      list_all (\<lambda>u. authType u = NONE \<and> allowedOrigins u = [''*'']) (functionUrls S))"

definition declared_functions :: "stack list \<Rightarrow> lambda_function list" where
  "declared_functions ss = concat (map lambdaFunctions ss)"

definition declared_databases :: "stack list \<Rightarrow> rds_database_instance list" where
  "declared_databases ss = concat (map databases ss)"

definition declared_tables :: "stack list \<Rightarrow> dynamodb_table list" where
  "declared_tables ss = concat (map tables ss)"

section \<open>The script that writes an item\<close>

text \<open>
  \<^verbatim>\<open>src/unnamed/part_000\<close>: a client for the region \<^verbatim>\<open>ap-southeast-2\<close>, and \<^verbatim>\<open>addItem\<close>, which
  sends one \<^verbatim>\<open>PutCommand\<close>, awaits it inside \<^verbatim>\<open>try\<close>, and logs the outcome. The network is
  a function from the number of the call (0 for the first \<^verbatim>\<open>send\<close>) to its outcome: the
  promise resolves with the service's answer, whose type \<open>'d\<close> the script does not look
  into, or rejects with an error object.
\<close>

record put_params =
  TableName :: string
  Item :: "(string \<times> string) list"

record js_error =
  err_name :: string
  err_message :: string
  err_stack :: string

datatype 'd outcome = Resolved 'd | Rejected js_error

datatype 'd logged = Text string | Data 'd

datatype 'd io_event =
    Send string put_params       \<comment> \<open>region of the client, parameters of the \<^verbatim>\<open>PutCommand\<close>\<close>
  | ConsoleLog "'d logged list"
  | ConsoleError "'d logged list"

record 'd process =
  calls :: nat
  io :: "'d io_event list"

definition client_region :: string where
  "client_region = ''ap-southeast-2''"

definition params :: put_params where
  "params = \<lparr> TableName = ''my-first-table'',
              Item = [(''id'', ''user_001''), (''username'', ''presley'')] \<rparr>"

text \<open>\<^verbatim>\<open>client.send(new PutCommand(p))\<close>: one more call, and its outcome.\<close>

definition send :: "(nat \<Rightarrow> 'd outcome) \<Rightarrow> put_params \<Rightarrow> 'd process \<Rightarrow> 'd outcome \<times> 'd process" where
  "send net p s =
     (net (calls s), s\<lparr>calls := Suc (calls s), io := io s @ [Send client_region p]\<rparr>)"

definition console_log :: "'d logged list \<Rightarrow> 'd process \<Rightarrow> 'd process" where
  "console_log args s = s\<lparr>io := io s @ [ConsoleLog args]\<rparr>"

definition console_error :: "'d logged list \<Rightarrow> 'd process \<Rightarrow> 'd process" where
  "console_error args s = s\<lparr>io := io s @ [ConsoleError args]\<rparr>"

definition addItem :: "(nat \<Rightarrow> 'd outcome) \<Rightarrow> 'd process \<Rightarrow> 'd process" where
  "addItem net s =
     (case send net params s of
        (Resolved data, s') \<Rightarrow> console_log [Text ''Success - item added:'', Data data] s'
      | (Rejected err, s') \<Rightarrow> console_error [Text ''Error'', Text (err_stack err)] s')"

text \<open>The script: \<^verbatim>\<open>addItem();\<close> in a fresh process.\<close>

definition write_script :: "(nat \<Rightarrow> 'd outcome) \<Rightarrow> 'd process" where
  "write_script net = addItem net \<lparr>calls = 0, io = []\<rparr>"

text \<open>The calls a run has sent to the service: the region and the parameters of each.\<close>

fun sent :: "'d io_event list \<Rightarrow> (string \<times> put_params) list" where
  "sent [] = []"
| "sent (Send r p # es) = (r, p) # sent es"
| "sent (e # es) = sent es"

text \<open>Two networks: one that answers, one whose first call fails.\<close>

definition network_ok :: "nat \<Rightarrow> string outcome" where
  "network_ok n = Resolved ''{}''"

definition table_missing :: js_error where
  "table_missing = \<lparr> err_name = ''ResourceNotFoundException'',
                       err_message = ''Requested resource not found'',
                       err_stack = ''ResourceNotFoundException: Requested resource not found'' \<rparr>"

definition network_failing :: "nat \<Rightarrow> string outcome" where
  "network_failing n = (if n = 0 then Rejected table_missing else Resolved ''{}'')"

section \<open>The runs of the deploy script\<close>

text \<open>
  Whatever the world answers, a run of the script is one of seven: one for each place
  where it can stop, and the run that reaches the end. Each lemma evaluates the
  interpreter on the script under the answers that lead there.
\<close>

lemmas sh_simps =
  deploy_def run_script_def deploy_script_def init_shell_def finish_def log_event_def
  set_var_def expand_def lookup_var_def Let_def case_prod_beta
  credential_check_def account_query_def npm_ci_def npm_run_build_def cdk_deploy_def
  AWS_ACCOUNT_ID_def banner_def account_test_def warning_message_def verified_def

lemma deploy_credential_failure:
  "fst (w credential_check) \<noteq> 0 \<Longrightarrow>
   deploy w = (fst (w credential_check), banner @ [Ran credential_check (fst (w credential_check))])"
  by (simp add: sh_simps)

lemma deploy_query_failure:
  "fst (w credential_check) = 0 \<Longrightarrow> fst (w account_query) \<noteq> 0 \<Longrightarrow>
   deploy w = (fst (w account_query),
     banner @ [Ran credential_check 0, Tested (LastStatusNe 0) False,
               Ran account_query (fst (w account_query))])"
  by (simp add: sh_simps)

lemma deploy_mismatch:
  "fst (w credential_check) = 0 \<Longrightarrow> fst (w account_query) = 0 \<Longrightarrow>
   snd (w account_query) \<noteq> AWS_ACCOUNT_ID \<Longrightarrow>
   deploy w = (1,
     banner @ [Ran credential_check 0, Tested (LastStatusNe 0) False, Ran account_query 0,
               Tested account_test True,
               Printed (warning_message (snd (w account_query))),
               Printed msg_switch])"
  by (simp add: sh_simps)

lemma deploy_install_failure:
  "fst (w credential_check) = 0 \<Longrightarrow> fst (w account_query) = 0 \<Longrightarrow>
   snd (w account_query) = AWS_ACCOUNT_ID \<Longrightarrow> fst (w npm_ci) \<noteq> 0 \<Longrightarrow>
   deploy w = (fst (w npm_ci), verified @ [Ran npm_ci (fst (w npm_ci))])"
  by (simp add: sh_simps)

lemma deploy_build_failure:
  "fst (w credential_check) = 0 \<Longrightarrow> fst (w account_query) = 0 \<Longrightarrow>
   snd (w account_query) = AWS_ACCOUNT_ID \<Longrightarrow> fst (w npm_ci) = 0 \<Longrightarrow>
   fst (w npm_run_build) \<noteq> 0 \<Longrightarrow>
   deploy w = (fst (w npm_run_build),
     verified @ [Ran npm_ci 0, Printed msg_building, Ran npm_run_build (fst (w npm_run_build))])"
  by (simp add: sh_simps)

lemma deploy_deploy_failure:
  "fst (w credential_check) = 0 \<Longrightarrow> fst (w account_query) = 0 \<Longrightarrow>
   snd (w account_query) = AWS_ACCOUNT_ID \<Longrightarrow> fst (w npm_ci) = 0 \<Longrightarrow>
   fst (w npm_run_build) = 0 \<Longrightarrow> fst (w cdk_deploy) \<noteq> 0 \<Longrightarrow>
   deploy w = (fst (w cdk_deploy),
     verified @ [Ran npm_ci 0, Printed msg_building, Ran npm_run_build 0,
               Printed msg_deploying, Ran cdk_deploy (fst (w cdk_deploy))])"
  by (simp add: sh_simps)

lemma deploy_success:
  "fst (w credential_check) = 0 \<Longrightarrow> fst (w account_query) = 0 \<Longrightarrow>
   snd (w account_query) = AWS_ACCOUNT_ID \<Longrightarrow> fst (w npm_ci) = 0 \<Longrightarrow>
   fst (w npm_run_build) = 0 \<Longrightarrow> fst (w cdk_deploy) = 0 \<Longrightarrow>
   deploy w = (0,
     verified @ [Ran npm_ci 0, Printed msg_building, Ran npm_run_build 0,
               Printed msg_deploying, Ran cdk_deploy 0, Printed [], Printed msg_completed])"
  by (simp add: sh_simps)

lemma without_set_e_credential_failure:
  "fst (w credential_check) \<noteq> 0 \<Longrightarrow>
   run_script w deploy_script_without_set_e =
     (1, banner @ [Ran credential_check (fst (w credential_check)),
                   Tested (LastStatusNe 0) True, Printed msg_not_configured])"
  by (simp add: sh_simps deploy_script_without_set_e_def)

lemmas msg_defs =
  msg_start_def msg_region_def msg_stack_def msg_checking_def msg_not_configured_def
  msg_warning_current_def msg_switch_def msg_verified_def msg_installing_def
  msg_building_def msg_deploying_def msg_completed_def emoji_rocket_def emoji_pin_def
  emoji_package_def emoji_lock_def emoji_cross_def emoji_warning_def emoji_check_def
  emoji_replacement_def

lemmas cmd_defs = credential_check_def account_query_def npm_ci_def npm_run_build_def cdk_deploy_def

lemma first_failure_cases:
  assumes "first_failure w = Some s"
  obtains
    (credentials) "s = CredentialCheck" "fst (w credential_check) \<noteq> 0"
  | (query) "s = AccountVerification" "fst (w credential_check) = 0" "fst (w account_query) \<noteq> 0"
  | (mismatch) "s = AccountVerification" "fst (w credential_check) = 0" "fst (w account_query) = 0"
      "snd (w account_query) \<noteq> AWS_ACCOUNT_ID"
  | (install) "s = Install" "fst (w credential_check) = 0" "fst (w account_query) = 0"
      "snd (w account_query) = AWS_ACCOUNT_ID" "fst (w npm_ci) \<noteq> 0"
  | (build) "s = Build" "fst (w credential_check) = 0" "fst (w account_query) = 0"
      "snd (w account_query) = AWS_ACCOUNT_ID" "fst (w npm_ci) = 0" "fst (w npm_run_build) \<noteq> 0"
  | (deploy) "s = Deploy" "fst (w credential_check) = 0" "fst (w account_query) = 0"
      "snd (w account_query) = AWS_ACCOUNT_ID" "fst (w npm_ci) = 0" "fst (w npm_run_build) = 0"
      "fst (w cdk_deploy) \<noteq> 0"
  using assms by (auto simp: first_failure_def steps_def split: if_splits)

lemma first_failure_none:
  "first_failure w = None \<longleftrightarrow>
     fst (w credential_check) = 0 \<and> fst (w account_query) = 0 \<and>
     snd (w account_query) = AWS_ACCOUNT_ID \<and> fst (w npm_ci) = 0 \<and>
     fst (w npm_run_build) = 0 \<and> fst (w cdk_deploy) = 0"
  by (auto simp: first_failure_def steps_def split: if_splits)

text \<open>When no step fails, the five commands run in order and the script exits with 0.\<close>

lemma deploy_without_failure:
  assumes "first_failure w = None"
  shows "fst (deploy w) = 0"
    and "commands_run (snd (deploy w)) = map step_command steps"
    and "last (snd (deploy w)) = Printed msg_completed"
  using assms
  by (simp_all add: first_failure_none deploy_success verified_def banner_def steps_def)

text \<open>
  Claim C1. If the account that the identity query returns is not the configured
  \<^verbatim>\<open>315565838153\<close>, the script ends with a non-zero status and none of \<^verbatim>\<open>npm ci\<close>,
  \<^verbatim>\<open>npm run build\<close> and \<^verbatim>\<open>npx cdk deploy\<close> has run; when both identity calls succeeded (so
  that an account was returned), the status is 1 and the warning naming both accounts
  has been printed.
\<close>

theorem account_mismatch_aborts:
  assumes "snd (w account_query) \<noteq> AWS_ACCOUNT_ID"
  shows "fst (deploy w) \<noteq> 0 \<and>
         npm_ci \<notin> set (commands_run (snd (deploy w))) \<and>
         npm_run_build \<notin> set (commands_run (snd (deploy w))) \<and>
         cdk_deploy \<notin> set (commands_run (snd (deploy w))) \<and>
         (fst (w credential_check) = 0 \<and> fst (w account_query) = 0 \<longrightarrow>
            fst (deploy w) = 1 \<and>
            Printed (warning_message (snd (w account_query))) \<in> set (snd (deploy w)))"
proof (cases "fst (w credential_check) = 0")
  case False
  then show ?thesis
    by (simp add: deploy_credential_failure banner_def cmd_defs)
next
  case c: True
  show ?thesis
  proof (cases "fst (w account_query) = 0")
    case False
    with c show ?thesis
      by (simp add: deploy_query_failure banner_def cmd_defs)
  next
    case True
    with c assms show ?thesis
      by (simp add: deploy_mismatch banner_def cmd_defs)
  qed
qed

theorem account_mismatch_aborts_witness:
  "snd (world_other_account account_query) \<noteq> AWS_ACCOUNT_ID \<and>
   fst (deploy world_other_account) = 1 \<and>
   Printed (warning_message ''000000000000'') \<in> set (snd (deploy world_other_account)) \<and>
   npm_ci \<notin> set (commands_run (snd (deploy world_other_account)))"
  using account_mismatch_aborts [of world_other_account]
  by (simp add: world_other_account_def AWS_ACCOUNT_ID_def cmd_defs)

lemma first_failure_install: "first_failure world_install_fails = Some Install"
  by (simp add: first_failure_def steps_def world_install_fails_def cmd_defs AWS_ACCOUNT_ID_def)

text \<open>
  Claim C3, as the specification states it, asks for a message of the script at every
  failing step. A failing \<^verbatim>\<open>npm ci\<close> ends the script under \<^verbatim>\<open>set -e\<close> with nothing printed
  after it.
\<close>

theorem first_failure_aborts_counterexample: "\<not> aborts_with_message world_install_fails"
proof -
  have "deploy world_install_fails = (1, verified @ [Ran npm_ci 1])"
    using deploy_install_failure [of world_install_fails]
    by (simp add: world_install_fails_def cmd_defs AWS_ACCOUNT_ID_def)
  then show ?thesis
    by (simp add: aborts_with_message_def first_failure_install failure_reported_def
        verified_def banner_def cmd_defs)
qed

text \<open>
  Claim C3, amended. The first failing step ends the script with a non-zero status, and
  the commands that have run are those of the steps up to that one, in order, so that no
  later step runs. The script prints a message of its own when the failure is an account
  that does not match; when the install, build or deploy command fails, the script ends
  with the status of that command and prints nothing after it.
\<close>

theorem first_failure_aborts:
  assumes "first_failure w = Some s"
  shows "fst (deploy w) \<noteq> 0 \<and>
         commands_run (snd (deploy w)) = map step_command (steps_through s) \<and>
         (s = AccountVerification \<and> fst (w account_query) = 0 \<longrightarrow>
            fst (deploy w) = 1 \<and> failure_reported s (snd (deploy w)) \<and>
            Printed (warning_message (snd (w account_query))) \<in> set (snd (deploy w))) \<and>
         (s \<in> {Install, Build, Deploy} \<longrightarrow>
            fst (deploy w) = fst (w (step_command s)) \<and> \<not> failure_reported s (snd (deploy w)))"
  using assms
proof (cases rule: first_failure_cases)
  case credentials
  then show ?thesis
    by (simp add: deploy_credential_failure banner_def steps_through_def steps_def)
next
  case query
  then show ?thesis
    by (simp add: deploy_query_failure banner_def steps_through_def steps_def)
next
  case mismatch
  then show ?thesis
    by (simp add: deploy_mismatch banner_def steps_through_def steps_def failure_reported_def cmd_defs)
next
  case install
  then show ?thesis
    by (simp add: deploy_install_failure banner_def verified_def steps_through_def steps_def
        failure_reported_def cmd_defs)
next
  case build
  then show ?thesis
    by (simp add: deploy_build_failure banner_def verified_def steps_through_def steps_def
        failure_reported_def cmd_defs)
next
  case deploy
  then show ?thesis
    by (simp add: deploy_deploy_failure banner_def verified_def steps_through_def steps_def
        failure_reported_def cmd_defs)
qed

theorem first_failure_aborts_witness:
  "first_failure world_install_fails = Some Install \<and>
   fst (deploy world_install_fails) = 1 \<and>
   commands_run (snd (deploy world_install_fails)) = [credential_check, account_query, npm_ci] \<and>
   \<not> failure_reported Install (snd (deploy world_install_fails)) \<and>
   first_failure world_other_account = Some AccountVerification \<and>
   fst (deploy world_other_account) = 1 \<and>
   commands_run (snd (deploy world_other_account)) = [credential_check, account_query] \<and>
   failure_reported AccountVerification (snd (deploy world_other_account))"
proof -
  have i: "first_failure world_install_fails = Some Install"
    by (simp add: first_failure_def steps_def world_install_fails_def cmd_defs AWS_ACCOUNT_ID_def)
  have m: "first_failure world_other_account = Some AccountVerification"
    by (simp add: first_failure_def steps_def world_other_account_def cmd_defs AWS_ACCOUNT_ID_def)
  show ?thesis
    using first_failure_aborts [OF i] first_failure_aborts [OF m] i m
    by (simp add: steps_through_def steps_def world_install_fails_def world_other_account_def cmd_defs)
qed

text \<open>
  Claim C10. In no run does the test \<^verbatim>\<open>[ $? -ne 0 ]\<close> after the credential check come out
  true, and in no run is the message of its branch printed. When the credential check
  succeeds, the test runs and is false. When the check fails, the run ends at the check,
  with its status, before the test; the same script without \<^verbatim>\<open>set -e\<close> would reach the
  test, find it true, print the message and exit 1.
\<close>

theorem credential_branch_unreachable:
  "Tested (LastStatusNe 0) True \<notin> set (snd (deploy w)) \<and>
   Printed msg_not_configured \<notin> set (snd (deploy w)) \<and>
   (fst (w credential_check) = 0 \<longrightarrow> Tested (LastStatusNe 0) False \<in> set (snd (deploy w))) \<and>
   (fst (w credential_check) \<noteq> 0 \<longrightarrow>
      deploy w = (fst (w credential_check),
                  banner @ [Ran credential_check (fst (w credential_check))]) \<and>
      run_script w deploy_script_without_set_e =
        (1, banner @ [Ran credential_check (fst (w credential_check)),
                      Tested (LastStatusNe 0) True, Printed msg_not_configured]))"
proof (cases "first_failure w")
  case None
  then show ?thesis
    by (simp add: first_failure_none deploy_success verified_def banner_def msg_defs
        AWS_ACCOUNT_ID_def account_test_def)
next
  case (Some s)
  then show ?thesis
  proof (cases rule: first_failure_cases)
    case credentials
    then show ?thesis
      by (simp add: deploy_credential_failure without_set_e_credential_failure banner_def msg_defs)
  next
    case query
    then show ?thesis
      by (simp add: deploy_query_failure banner_def msg_defs)
  next
    case mismatch
    then show ?thesis
      by (simp add: deploy_mismatch banner_def msg_defs warning_message_def account_test_def)
  next
    case install
    then show ?thesis
      by (simp add: deploy_install_failure verified_def banner_def msg_defs AWS_ACCOUNT_ID_def
          account_test_def)
  next
    case build
    then show ?thesis
      by (simp add: deploy_build_failure verified_def banner_def msg_defs AWS_ACCOUNT_ID_def
          account_test_def)
  next
    case deploy
    then show ?thesis
      by (simp add: deploy_deploy_failure verified_def banner_def msg_defs AWS_ACCOUNT_ID_def
          account_test_def)
  qed
qed

theorem credential_branch_unreachable_witness:
  "fst (world_ok credential_check) = 0 \<and>
   Tested (LastStatusNe 0) False \<in> set (snd (deploy world_ok)) \<and>
   fst (world_no_credentials credential_check) \<noteq> 0 \<and>
   deploy world_no_credentials = (255, banner @ [Ran credential_check 255]) \<and>
   Tested (LastStatusNe 0) True \<notin> set (snd (deploy world_no_credentials)) \<and>
   run_script world_no_credentials deploy_script_without_set_e =
     (1, banner @ [Ran credential_check 255, Tested (LastStatusNe 0) True,
                   Printed msg_not_configured])"
  using credential_branch_unreachable [of world_no_credentials]
    credential_branch_unreachable [of world_ok]
  by (simp add: world_no_credentials_def world_ok_def banner_def)

section \<open>The declarations\<close>

lemmas stack_defs =
  EksplorasaApiStack_def EksplorasaApiStack_part_001_def MyCdkStack_def repository_stacks_def
  Let_def

lemmas construct_defs =
  vpc_def dbSecurityGroup_def lambdaSecurityGroup_def database_def pg8000Layer_def
  customerHomepageLambda_def customerHomepageFunctionUrl_def browseApiLambda_def
  browseApi_def restaurantDetailLambda_def restaurantDetailFunctionUrl_def

lemma stage_truthy: "truthy (stage c e)"
  by (simp add: stage_def js_or_def)

lemma falsy_values:
  "\<not> truthy v \<longleftrightarrow>
     v = JUndefined \<or> v = JNull \<or> v = JBool False \<or> v = JStr [] \<or> (\<exists>s. v = JNumber False s)"
  by (cases v) auto

text \<open>
  Claim C2. The stage is the value the context holds under \<^verbatim>\<open>stage\<close> when there is one and
  it is truthy; otherwise the string the environment holds under \<^verbatim>\<open>STAGE\<close> when there is one
  and it is not empty; otherwise \<^verbatim>\<open>prod\<close>. It is a non-empty string, \<^verbatim>\<open>true\<close>, a number
  other than zero, or an object, and the string a template literal makes of it is the
  suffix of the identifiers of the VPC, the database, the lambdas and the outputs, in both
  versions of the stack.
\<close>

theorem stage_resolution:
  "stage c e =
     (case c ''stage'' of
        Some v \<Rightarrow>
          if truthy v then v
          else (case e ''STAGE'' of
                  Some s \<Rightarrow> if s \<noteq> [] then JStr s else JStr ''prod''
                | None \<Rightarrow> JStr ''prod'')
      | None \<Rightarrow>
          (case e ''STAGE'' of
             Some s \<Rightarrow> if s \<noteq> [] then JStr s else JStr ''prod''
           | None \<Rightarrow> JStr ''prod'')) \<and>
   (case stage c e of
      JStr s \<Rightarrow> s \<noteq> [] \<and> to_string (stage c e) = s
    | JBool b \<Rightarrow> b \<and> to_string (stage c e) = ''true''
    | JNumber nonzero s \<Rightarrow> nonzero \<and> to_string (stage c e) = s
    | JObject s \<Rightarrow> to_string (stage c e) = s
    | JUndefined \<Rightarrow> False
    | JNull \<Rightarrow> False) \<and>
   (let t = to_string (stage c e);
        lib = EksplorasaApiStack c e;
        other = EksplorasaApiStack_part_001 c e
    in map vpc_id (vpcs lib) = [''EksplorasaVpc-'' @ t] \<and>
       map vpc_id (vpcs other) = [''EksplorasaVpc-'' @ t] \<and>
       map db_id (databases lib) = [''EksplorasaDatabase'' @ t] \<and>
       map db_id (databases other) = [''EksplorasaDatabase'' @ t] \<and>
       map databaseName (databases lib) = [''eksplorasa'' @ t] \<and>
       map databaseName (databases other) = [''eksplorasa'' @ t] \<and>
       map fn_id (lambdaFunctions lib) = [''CustomerHomepageLambda-'' @ t, ''BrowseApiLambda-'' @ t] \<and>
       map fn_id (lambdaFunctions other) =
         [''CustomerHomepageLambda-'' @ t, ''RestaurantDetailLambda-'' @ t] \<and>
       map functionName (lambdaFunctions lib) =
         [''eksplorasa-customer-homepage-'' @ t, ''eksplorasa-browse-api-'' @ t] \<and>
       map functionName (lambdaFunctions other) =
         [''eksplorasa-customer-homepage-'' @ t, ''eksplorasa-restaurant-detail-'' @ t] \<and>
       map output_id (outputs lib) = [''CustomerHomepageUrl-'' @ t, ''BrowseApiUrl-'' @ t] \<and>
       map output_id (outputs other) = [''CustomerHomepageUrl-'' @ t, ''RestaurantDetailUrl-'' @ t] \<and>
       map exportName (outputs lib) =
         [''EksplorasaApi-'' @ t @ ''-CustomerHomepageUrl'', ''EksplorasaApi-'' @ t @ ''-BrowseApiUrl''] \<and>
       map exportName (outputs other) =
         [''EksplorasaApi-'' @ t @ ''-CustomerHomepageUrl'',
          ''EksplorasaApi-'' @ t @ ''-RestaurantDetailUrl''])"
  (is "?resolved \<and> ?written \<and> ?embedded")
proof (intro conjI)
  show ?resolved
    by (simp add: stage_def js_or_def tryGetContext_def process_env_def split: option.splits)
  show ?written
    using stage_truthy [of c e] by (cases "stage c e") simp_all
  show ?embedded
    by (simp add: stack_defs construct_defs)
qed

theorem stage_resolution_witness:
  "stage [''stage'' \<mapsto> JStr ''dev''] [''STAGE'' \<mapsto> ''staging''] = JStr ''dev'' \<and>
   stage Map.empty [''STAGE'' \<mapsto> ''staging''] = JStr ''staging'' \<and>
   stage [''stage'' \<mapsto> JStr []] [''STAGE'' \<mapsto> ''staging''] = JStr ''staging'' \<and>
   stage [''stage'' \<mapsto> JNull] [''STAGE'' \<mapsto> []] = JStr ''prod'' \<and>
   stage [''stage'' \<mapsto> JNumber False ''0''] Map.empty = JStr ''prod'' \<and>
   stage [''other'' \<mapsto> JStr ''dev''] [''OTHER'' \<mapsto> ''dev''] = JStr ''prod'' \<and>
   map vpc_id (vpcs (EksplorasaApiStack Map.empty Map.empty)) = [''EksplorasaVpc-prod''] \<and>
   map db_id (databases (EksplorasaApiStack script_context script_environment)) =
     [''EksplorasaDatabasedev''] \<and>
   map vpc_id (vpcs (EksplorasaApiStack [''stage'' \<mapsto> JBool True] Map.empty)) =
     [''EksplorasaVpc-true''] \<and>
   map fn_id (lambdaFunctions (EksplorasaApiStack_part_001
       [''stage'' \<mapsto> JNumber True ''1e+21''] [''STAGE'' \<mapsto> ''staging''])) =
     [''CustomerHomepageLambda-1e+21'', ''RestaurantDetailLambda-1e+21'']"
proof (intro conjI)
  show "stage [''stage'' \<mapsto> JStr ''dev''] [''STAGE'' \<mapsto> ''staging''] = JStr ''dev''"
    using stage_resolution [of "[''stage'' \<mapsto> JStr ''dev'']" "[''STAGE'' \<mapsto> ''staging'']"]
    by simp
  show "stage Map.empty [''STAGE'' \<mapsto> ''staging''] = JStr ''staging''"
    using stage_resolution [of Map.empty "[''STAGE'' \<mapsto> ''staging'']"]
    by simp
  show "stage [''stage'' \<mapsto> JStr []] [''STAGE'' \<mapsto> ''staging''] = JStr ''staging''"
    using stage_resolution [of "[''stage'' \<mapsto> JStr []]" "[''STAGE'' \<mapsto> ''staging'']"]
    by simp
  show "stage [''stage'' \<mapsto> JNull] [''STAGE'' \<mapsto> []] = JStr ''prod''"
    using stage_resolution [of "[''stage'' \<mapsto> JNull]" "[''STAGE'' \<mapsto> []]"]
    by simp
  show "stage [''stage'' \<mapsto> JNumber False ''0''] Map.empty = JStr ''prod''"
    using stage_resolution [of "[''stage'' \<mapsto> JNumber False ''0'']" Map.empty]
    by simp
  show "stage [''other'' \<mapsto> JStr ''dev''] [''OTHER'' \<mapsto> ''dev''] = JStr ''prod''"
    using stage_resolution [of "[''other'' \<mapsto> JStr ''dev'']" "[''OTHER'' \<mapsto> ''dev'']"]
    by simp
  show "map vpc_id (vpcs (EksplorasaApiStack Map.empty Map.empty)) = [''EksplorasaVpc-prod'']"
    using stage_resolution [of Map.empty Map.empty]
    by (simp add: Let_def)
  show "map db_id (databases (EksplorasaApiStack script_context script_environment)) =
     [''EksplorasaDatabasedev'']"
    using stage_resolution [of script_context script_environment]
    by (simp add: Let_def script_context_def script_environment_def)
  show "map vpc_id (vpcs (EksplorasaApiStack [''stage'' \<mapsto> JBool True] Map.empty)) =
     [''EksplorasaVpc-true'']"
    using stage_resolution [of "[''stage'' \<mapsto> JBool True]" Map.empty]
    by (simp add: Let_def)
  show "map fn_id (lambdaFunctions (EksplorasaApiStack_part_001
       [''stage'' \<mapsto> JNumber True ''1e+21''] [''STAGE'' \<mapsto> ''staging''])) =
     [''CustomerHomepageLambda-1e+21'', ''RestaurantDetailLambda-1e+21'']"
    using stage_resolution
      [of "[''stage'' \<mapsto> JNumber True ''1e+21'']" "[''STAGE'' \<mapsto> ''staging'']"]
    by (simp add: Let_def)
qed

text \<open>
  Claim C5. Over all the stacks of the repository, one method is declared; it is a
  \<^verbatim>\<open>GET\<close> on the resource \<^verbatim>\<open>explore\<close>, and its request parameters are the ten query strings of
  the specification, each declared with \<^verbatim>\<open>false\<close>, that is, not required.
\<close>

theorem explore_get_method:
  "map (\<lambda>m. (resource_path m, httpMethod m))
       (filter (\<lambda>m. httpMethod m = ''GET'') (declared_methods (repository_stacks c e))) =
     [([''explore''], ''GET'')] \<and>
   map requestParameters
       (filter (\<lambda>m. httpMethod m = ''GET'') (declared_methods (repository_stacks c e))) =
     [map (\<lambda>q. (''method.request.querystring.'' @ q, False)) query_parameters] \<and>
   length query_parameters = 10 \<and> distinct query_parameters \<and>
   declared_methods (repository_stacks c e) = api_methods (browseApi (stage c e))"
  by (simp add: declared_methods_def stack_defs browseApi_def query_parameters_def)

text \<open>
  Claim C6, as the specification states it, asks for two function URLs in the stack. The
  stack of \<^verbatim>\<open>src/lib/eksplorasa-api-stack.ts\<close> declares one, that of the customer homepage
  lambda: its other lambda is reached through the API gateway.
\<close>

theorem function_urls_open_counterexample:
  "\<not> two_open_function_urls (EksplorasaApiStack script_context script_environment)"
  by (simp add: two_open_function_urls_def stack_defs)

text \<open>
  Claim C6, amended. The version of the stack in \<^verbatim>\<open>src/unnamed/part_001\<close> declares two
  function URLs, that of the customer homepage lambda and that of the restaurant detail
  lambda; the version in \<^verbatim>\<open>src/lib/eksplorasa-api-stack.ts\<close> declares one, that of the
  customer homepage lambda. Every function URL that a stack of the repository declares has
  the authentication type \<^verbatim>\<open>NONE\<close> and allows the origins \<^verbatim>\<open>['*']\<close>.
\<close>

theorem function_urls_open:
  "functionUrls (EksplorasaApiStack_part_001 c e) =
     [customerHomepageFunctionUrl (stage c e), restaurantDetailFunctionUrl (stage c e)] \<and>
   customerHomepageFunctionUrl (stage c e) \<noteq> restaurantDetailFunctionUrl (stage c e) \<and>
   url_of_function (customerHomepageFunctionUrl (stage c e)) =
     fn_id (customerHomepageLambda (stage c e)) \<and>
   url_of_function (restaurantDetailFunctionUrl (stage c e)) =
     fn_id (restaurantDetailLambda (stage c e)) \<and>
   two_open_function_urls (EksplorasaApiStack_part_001 c e) \<and>
   functionUrls (EksplorasaApiStack c e) = [customerHomepageFunctionUrl (stage c e)] \<and>
   functionUrls MyCdkStack = [] \<and>
   (\<forall>u \<in> set (declared_function_urls (repository_stacks c e)).
      authType u = NONE \<and> allowedOrigins u = [''*''])"
  by (simp add: declared_function_urls_def two_open_function_urls_def stack_defs
      customerHomepageFunctionUrl_def restaurantDetailFunctionUrl_def
      customerHomepageLambda_def restaurantDetailLambda_def)

theorem function_urls_open_witness:
  "restaurantDetailFunctionUrl (JStr ''dev'') \<in>
     set (declared_function_urls (repository_stacks script_context script_environment)) \<and>
   authType (restaurantDetailFunctionUrl (JStr ''dev'')) = NONE \<and>
   allowedOrigins (restaurantDetailFunctionUrl (JStr ''dev'')) = [''*''] \<and>
   length (functionUrls (EksplorasaApiStack_part_001 script_context script_environment)) = 2 \<and>
   length (functionUrls (EksplorasaApiStack script_context script_environment)) = 1"
proof -
  have st: "stage script_context script_environment = JStr ''dev''"
    by (simp add: stage_def js_or_def tryGetContext_def script_context_def)
  have "restaurantDetailFunctionUrl (JStr ''dev'') \<in>
          set (declared_function_urls (repository_stacks script_context script_environment))"
    by (simp add: declared_function_urls_def stack_defs st)
  with function_urls_open [of script_context script_environment] show ?thesis
    by (simp add: st)
qed

text \<open>
  Claim C8. The database is declared with the user name \<^verbatim>\<open>eksplorasa\<close> and the plain-text
  password \<^verbatim>\<open>eksplorasa2025\<close>, in both versions of the stack, and every lambda that a stack
  declares carries the same two literals as \<^verbatim>\<open>DB_USERNAME\<close> and \<^verbatim>\<open>DB_PASSWORD\<close>.
\<close>

theorem hard_coded_credentials:
  "map (\<lambda>d. (credentials_username d, credentials_password d))
       (declared_databases (repository_stacks c e)) =
     [(''eksplorasa'', UnsafePlainText ''eksplorasa2025''),
      (''eksplorasa'', UnsafePlainText ''eksplorasa2025'')] \<and>
   declared_functions (repository_stacks c e) =
     [customerHomepageLambda (stage c e), browseApiLambda (stage c e),
      customerHomepageLambda (stage c e), restaurantDetailLambda (stage c e)] \<and>
   (\<forall>f \<in> set (declared_functions (repository_stacks c e)).
      map_of (environment f) ''DB_USERNAME'' = Some (Literal ''eksplorasa'') \<and>
      map_of (environment f) ''DB_PASSWORD'' = Some (Literal ''eksplorasa2025''))"
  by (simp add: declared_databases_def declared_functions_def stack_defs database_def
      customerHomepageLambda_def browseApiLambda_def restaurantDetailLambda_def)

theorem hard_coded_credentials_witness:
  "browseApiLambda (JStr ''dev'') \<in>
     set (declared_functions (repository_stacks script_context script_environment)) \<and>
   map_of (environment (browseApiLambda (JStr ''dev''))) ''DB_USERNAME'' =
     Some (Literal ''eksplorasa'') \<and>
   map_of (environment (browseApiLambda (JStr ''dev''))) ''DB_PASSWORD'' =
     Some (Literal ''eksplorasa2025'')"
proof -
  have st: "stage script_context script_environment = JStr ''dev''"
    by (simp add: stage_def js_or_def tryGetContext_def script_context_def)
  have "browseApiLambda (JStr ''dev'') \<in>
          set (declared_functions (repository_stacks script_context script_environment))"
    by (simp add: declared_functions_def stack_defs st)
  with hard_coded_credentials [of script_context script_environment] show ?thesis
    by blast
qed

text \<open>
  Claim C9. Whatever the stage, the browse lambda is given the database name
  \<^verbatim>\<open>postgres\<close>, while the database is created as \<^verbatim>\<open>eksplorasa\<close> followed by the stage, which
  is also the name the customer homepage lambda is given; and \<^verbatim>\<open>postgres\<close> is never that
  name.
\<close>

theorem browse_db_name_postgres:
  "browseApiLambda (stage c e) \<in> set (lambdaFunctions (EksplorasaApiStack c e)) \<and>
   customerHomepageLambda (stage c e) \<in> set (lambdaFunctions (EksplorasaApiStack c e)) \<and>
   map_of (environment (browseApiLambda (stage c e))) ''DB_NAME'' = Some (Literal ''postgres'') \<and>
   map databaseName (databases (EksplorasaApiStack c e)) = [''eksplorasa'' @ to_string (stage c e)] \<and>
   map_of (environment (customerHomepageLambda (stage c e))) ''DB_NAME'' =
     Some (Literal (''eksplorasa'' @ to_string (stage c e))) \<and>
   ''postgres'' \<noteq> ''eksplorasa'' @ to_string (stage c e)"
  by (simp add: stack_defs database_def customerHomepageLambda_def browseApiLambda_def)

section \<open>The runs of the write script\<close>

lemma write_script_eq:
  "write_script net =
     (case net 0 of
        Resolved d \<Rightarrow>
          \<lparr>calls = 1, io = [Send client_region params, ConsoleLog [Text ''Success - item added:'', Data d]]\<rparr>
      | Rejected err \<Rightarrow>
          \<lparr>calls = 1, io = [Send client_region params, ConsoleError [Text ''Error'', Text (err_stack err)]]\<rparr>)"
  by (simp add: write_script_def addItem_def send_def console_log_def console_error_def
      split: outcome.splits)

lemma write_script_cong: "net' 0 = net 0 \<Longrightarrow> write_script net' = write_script net"
  by (simp only: write_script_eq)

text \<open>
  Claim C4. A run makes one call to the service. When the call resolves, the run logs the
  success with the data; when it rejects, the run logs \<^verbatim>\<open>Error\<close> and the stack of the error,
  whatever the error is. The run depends on the network through the outcome of the first
  call alone: there is no second call.
\<close>

theorem write_script_logs_outcome:
  "calls (write_script net) = 1 \<and>
   length (sent (io (write_script net))) = 1 \<and>
   (\<forall>d. net 0 = Resolved d \<longrightarrow>
      io (write_script net) =
        [Send client_region params, ConsoleLog [Text ''Success - item added:'', Data d]]) \<and>
   (\<forall>err. net 0 = Rejected err \<longrightarrow>
      io (write_script net) =
        [Send client_region params, ConsoleError [Text ''Error'', Text (err_stack err)]]) \<and>
   (\<forall>net'. net' 0 = net 0 \<longrightarrow> write_script net' = write_script net)"
proof (intro conjI allI impI)
  show "calls (write_script net) = 1"
    by (simp add: write_script_eq split: outcome.splits)
  show "length (sent (io (write_script net))) = 1"
    by (simp add: write_script_eq split: outcome.splits)
  show "io (write_script net) =
        [Send client_region params, ConsoleLog [Text ''Success - item added:'', Data d]]"
    if "net 0 = Resolved d" for d
    using that by (simp add: write_script_eq)
  show "io (write_script net) =
        [Send client_region params, ConsoleError [Text ''Error'', Text (err_stack err)]]"
    if "net 0 = Rejected err" for err
    using that by (simp add: write_script_eq)
  show "write_script net' = write_script net" if "net' 0 = net 0" for net'
    using that by (rule write_script_cong)
qed

theorem write_script_logs_outcome_witness:
  "network_ok 0 = Resolved ''{}'' \<and>
   io (write_script network_ok) =
     [Send client_region params, ConsoleLog [Text ''Success - item added:'', Data ''{}'']] \<and>
   network_failing 0 = Rejected table_missing \<and>
   io (write_script network_failing) =
     [Send client_region params, ConsoleError [Text ''Error'', Text (err_stack table_missing)]] \<and>
   calls (write_script network_failing) = 1 \<and>
   write_script (\<lambda>n. Rejected table_missing) = write_script network_failing"
proof -
  have ok: "network_ok 0 = Resolved ''{}''"
    by (simp add: network_ok_def)
  have failing: "network_failing 0 = Rejected table_missing"
    by (simp add: network_failing_def)
  have logged: "io (write_script network_ok) =
     [Send client_region params, ConsoleLog [Text ''Success - item added:'', Data ''{}'']]"
    using write_script_logs_outcome [of network_ok] ok by blast
  have caught: "io (write_script network_failing) =
     [Send client_region params, ConsoleError [Text ''Error'', Text (err_stack table_missing)]]"
    using write_script_logs_outcome [of network_failing] failing by blast
  have once: "calls (write_script network_failing) = 1"
    using write_script_logs_outcome [of network_failing] by blast
  have "\<forall>net'. net' 0 = network_failing 0 \<longrightarrow> write_script net' = write_script network_failing"
    using write_script_logs_outcome [of network_failing] by blast
  from this [rule_format, of "\<lambda>n. Rejected table_missing"] failing
  have "write_script (\<lambda>n. Rejected table_missing) = write_script network_failing"
    by simp
  with ok failing logged caught once show ?thesis
    by (intro conjI)
qed

text \<open>
  Claim C7. The stacks of the repository declare one table, \<^verbatim>\<open>my-first-table\<close>, with the
  partition key \<^verbatim>\<open>id\<close> of type string and no sort key; the write script sends one put, to
  the table of that name, of the item with \<^verbatim>\<open>id\<close> \<^verbatim>\<open>user_001\<close> and \<^verbatim>\<open>username\<close> \<^verbatim>\<open>presley\<close>.
\<close>

theorem table_and_item:
  "map tableName (declared_tables (repository_stacks c e)) = [''my-first-table''] \<and>
   map partitionKey (declared_tables (repository_stacks c e)) = [(''id'', STRING)] \<and>
   map sortKey (declared_tables (repository_stacks c e)) = [None] \<and>
   map (TableName \<circ> snd) (sent (io (write_script net))) =
     map tableName (declared_tables (repository_stacks c e)) \<and>
   map (Item \<circ> snd) (sent (io (write_script net))) =
     [[(''id'', ''user_001''), (''username'', ''presley'')]]"
  by (cases "net 0")
     (simp_all add: declared_tables_def stack_defs write_script_def addItem_def send_def
        console_log_def console_error_def params_def)

end
